theory Spec2Isabelle
  imports Main "HOL-Library.AList"
begin

section \<open>The model registry of \<open>src/lib/ai/models.ts\<close>\<close>

text \<open>
  The module computes, once at load time, the static catalog
  \<open>conditionalStaticModels\<close>, the merged registry \<open>allModels\<close>, the set
  \<open>allUnsupportedModels\<close> and the handle \<open>fallbackModel\<close>, and exports
  \<open>isToolCallUnsupportedModel\<close> and \<open>customModelProvider\<close>. Everything it reads
  from outside is a parameter of the model: the environment (\<open>process.env\<close>), the
  result of \<open>createOpenAICompatibleModels\<close> (imported from
  \<open>./create-openai-compatiable\<close>) and the members that a plain object inherits
  from \<open>Object.prototype\<close>.
\<close>

subsection \<open>Strings\<close>

text \<open>
  A string is the list of its code units; \<^typ>\<open>char\<close> covers the code units below
  256. Among them the white space and line terminators that \<open>String.prototype.trim\<close>
  removes are TAB, LF, VT, FF, CR, SP and NBSP.
\<close>

definition isWhiteSpace :: "char \<Rightarrow> bool" where
  "isWhiteSpace c = (of_char c \<in> {9, 10, 11, 12, 13, 32, 160 :: nat})"

definition trim :: "string \<Rightarrow> string" where
  "trim s = rev (dropWhile isWhiteSpace (rev (dropWhile isWhiteSpace s)))"

text \<open>\<open>s.split(sep)\<close> for a separator of one code unit: never an empty array.\<close>

fun split_str :: "char \<Rightarrow> string \<Rightarrow> string list" where
  "split_str sep [] = [[]]"
| "split_str sep (c # cs) =
     (if c = sep then [] # split_str sep cs
      else (case split_str sep cs of
              [] \<Rightarrow> [[c]]
            | p # ps \<Rightarrow> (c # p) # ps))"

text \<open>\<open>const has = (v) => typeof v === "string" && v.trim().length > 0\<close>\<close>

definition has :: "string option \<Rightarrow> bool" where
  "has v = (case v of None \<Rightarrow> False | Some s \<Rightarrow> length (trim s) > 0)"

subsection \<open>The environment and the presence flags\<close>

text \<open>A variable of \<open>process.env\<close> is a string or \<open>undefined\<close> (\<open>None\<close>).\<close>

record env =
  OPENAI_API_KEY :: "string option"
  GOOGLE_GENERATIVE_AI_API_KEY :: "string option"
  ANTHROPIC_API_KEY :: "string option"
  XAI_API_KEY :: "string option"
  OPENROUTER_API_KEY :: "string option"
  OLLAMA_BASE_URL :: "string option"
  E2E_DEFAULT_MODEL :: "string option"

definition HAS_OPENAI :: "env \<Rightarrow> bool" where
  "HAS_OPENAI e = has (OPENAI_API_KEY e)"

definition HAS_GOOGLE :: "env \<Rightarrow> bool" where
  "HAS_GOOGLE e = has (GOOGLE_GENERATIVE_AI_API_KEY e)"

definition HAS_ANTHROPIC :: "env \<Rightarrow> bool" where
  "HAS_ANTHROPIC e = has (ANTHROPIC_API_KEY e)"

definition HAS_XAI :: "env \<Rightarrow> bool" where
  "HAS_XAI e = has (XAI_API_KEY e)"

definition HAS_OPENROUTER :: "env \<Rightarrow> bool" where
  "HAS_OPENROUTER e = has (OPENROUTER_API_KEY e)"

definition HAS_OLLAMA :: "env \<Rightarrow> bool" where
  "HAS_OLLAMA e = has (OLLAMA_BASE_URL e)"

subsection \<open>Model handles\<close>

text \<open>
  A \<open>LanguageModel\<close> is an object compared by identity. Each handle of the static
  catalog is made by one call of a provider function at one place of the module, so it is
  identified by that function and its argument; the Ollama provider is itself made from
  the base URL. The handles of the dynamic catalog are made elsewhere: they are identified
  by an opaque object identity.
\<close>

datatype LanguageModel =
    OpenAI string
  | Google string
  | Anthropic string
  | XAI string
  | Ollama string string
  | OpenRouter string
  | OpenAICompatible nat

text \<open>
  \<open>createOllama({ baseURL: process.env.OLLAMA_BASE_URL || "http://localhost:11434/api" })\<close>:
  the empty string is falsy.
\<close>

definition ollama :: "env \<Rightarrow> string \<Rightarrow> LanguageModel" where
  "ollama e =
     Ollama (case OLLAMA_BASE_URL e of
               None \<Rightarrow> ''http://localhost:11434/api''
             | Some u \<Rightarrow> if u = [] then ''http://localhost:11434/api'' else u)"

subsection \<open>Plain objects\<close>

text \<open>
  A \<open>Record<string, V>\<close> is modelled by its own properties in the order in which
  \<open>Object.keys\<close> lists them. Assigning to a property replaces the value of a key
  the object has, in place, and otherwise adds the key at the end; an object spread
  assigns the properties of its source in their order. (The keys this module adds
  itself are none of them array indices, which \<open>Object.keys\<close> would list first.)
\<close>

type_synonym 'v object = "(string \<times> 'v) list"

type_synonym models = "LanguageModel object"

type_synonym registry = "models object"

definition objectKeys :: "'v object \<Rightarrow> string list" where
  "objectKeys obj = map fst obj"

definition objectValues :: "'v object \<Rightarrow> 'v list" where
  "objectValues obj = map snd obj"

definition setProp :: "string \<Rightarrow> 'v \<Rightarrow> 'v object \<Rightarrow> 'v object" where
  "setProp k v obj = AList.update k v obj"

fun spread :: "'v object \<Rightarrow> 'v object \<Rightarrow> 'v object" where
  "spread target [] = target"
| "spread target ((k, v) # src) = spread (setProp k v target) src"

text \<open>
  \<open>obj.p?.[m]\<close> for keys \<open>p\<close> and \<open>m\<close> written in the module: none of them is a
  member of \<open>Object.prototype\<close>, so the value is an own property or \<open>undefined\<close>.
\<close>

definition ownModel :: "registry \<Rightarrow> string \<Rightarrow> string \<Rightarrow> LanguageModel option" where
  "ownModel reg p m = (case map_of reg p of None \<Rightarrow> None | Some ms \<Rightarrow> map_of ms m)"

subsection \<open>The static catalog\<close>

definition openaiModels :: models where
  "openaiModels =
     [(''gpt-4.1'', OpenAI ''gpt-4.1''),
      (''gpt-4.1-mini'', OpenAI ''gpt-4.1-mini''),
      (''o4-mini'', OpenAI ''o4-mini''),
      (''o3'', OpenAI ''o3''),
      (''gpt-5'', OpenAI ''gpt-5''),
      (''gpt-5-mini'', OpenAI ''gpt-5-mini''),
      (''gpt-5-nano'', OpenAI ''gpt-5-nano'')]"

definition googleModels :: models where
  "googleModels =
     [(''gemini-2.5-flash-lite'', Google ''gemini-2.5-flash-lite''),
      (''gemini-2.5-flash'', Google ''gemini-2.5-flash''),
      (''gemini-2.5-pro'', Google ''gemini-2.5-pro'')]"

definition anthropicModels :: models where
  "anthropicModels =
     [(''claude-4-sonnet'', Anthropic ''claude-4-sonnet-20250514''),
      (''claude-4-opus'', Anthropic ''claude-4-opus-20250514''),
      (''claude-3-7-sonnet'', Anthropic ''claude-3-7-sonnet-20250219'')]"

definition xaiModels :: models where
  "xaiModels =
     [(''grok-4'', XAI ''grok-4''),
      (''grok-3'', XAI ''grok-3''),
      (''grok-3-mini'', XAI ''grok-3-mini'')]"

definition ollamaModels :: "env \<Rightarrow> models" where
  "ollamaModels e =
     [(''gemma3:1b'', ollama e ''gemma3:1b''),
      (''gemma3:4b'', ollama e ''gemma3:4b''),
      (''gemma3:12b'', ollama e ''gemma3:12b'')]"

definition openRouterModels :: models where
  "openRouterModels =
     [(''gpt-oss-20b:free'', OpenRouter ''openai/gpt-oss-20b:free''),
      (''qwen3-8b:free'', OpenRouter ''qwen/qwen3-8b:free''),
      (''qwen3-14b:free'', OpenRouter ''qwen/qwen3-14b:free''),
      (''qwen3-coder:free'', OpenRouter ''qwen/qwen3-coder:free''),
      (''deepseek-r1:free'', OpenRouter ''deepseek/deepseek-r1-0528:free''),
      (''deepseek-v3:free'', OpenRouter ''deepseek/deepseek-chat-v3-0324:free''),
      (''gemini-2.0-flash-exp:free'', OpenRouter ''google/gemini-2.0-flash-exp:free'')]"

text \<open>
  The module starts from the empty object and assigns one property per provider that is
  present, in this order: openai, google, anthropic, xai, ollama, openRouter.
\<close>

definition conditionalStaticModels :: "env \<Rightarrow> registry" where
  "conditionalStaticModels e =
     (let s0 = [];
          s1 = (if HAS_OPENAI e then setProp ''openai'' openaiModels s0 else s0);
          s2 = (if HAS_GOOGLE e then setProp ''google'' googleModels s1 else s1);
          s3 = (if HAS_ANTHROPIC e then setProp ''anthropic'' anthropicModels s2 else s2);
          s4 = (if HAS_XAI e then setProp ''xai'' xaiModels s3 else s3);
          s5 = (if HAS_OLLAMA e then setProp ''ollama'' (ollamaModels e) s4 else s4);
          s6 = (if HAS_OPENROUTER e then setProp ''openRouter'' openRouterModels s5 else s5)
      in s6)"

subsection \<open>The handles without tool calling\<close>

text \<open>
  One element of the array literal:
  \<open>...(conditionalStaticModels.p?.[m] ? [conditionalStaticModels.p[m]] : [])\<close>.
\<close>

definition ifConstructed :: "registry \<Rightarrow> string \<Rightarrow> string \<Rightarrow> LanguageModel list" where
  "ifConstructed s p m = (case ownModel s p m of None \<Rightarrow> [] | Some h \<Rightarrow> [h])"

text \<open>A \<open>Set\<close> is modelled by the list of its elements in insertion order.\<close>

definition staticUnsupportedModels :: "env \<Rightarrow> LanguageModel list" where
  "staticUnsupportedModels e =
     (let s = conditionalStaticModels e in
      remdups
        (ifConstructed s ''openai'' ''o4-mini'' @
         ifConstructed s ''ollama'' ''gemma3:1b'' @
         ifConstructed s ''ollama'' ''gemma3:4b'' @
         ifConstructed s ''ollama'' ''gemma3:12b'' @
         ifConstructed s ''openRouter'' ''gpt-oss-20b:free'' @
         ifConstructed s ''openRouter'' ''qwen3-8b:free'' @
         ifConstructed s ''openRouter'' ''qwen3-14b:free'' @
         ifConstructed s ''openRouter'' ''deepseek-r1:free'' @
         ifConstructed s ''openRouter'' ''gemini-2.0-flash-exp:free''))"

subsection \<open>The dynamic catalog and the merge\<close>

text \<open>
  The result of \<open>createOpenAICompatibleModels(openaiCompatibleProviders)\<close>: the
  providers with their models, as \<open>Object.keys\<close> lists them, and the handles flagged
  as not supporting tool calls.
\<close>

record dynamic =
  providers :: registry
  unsupportedModels :: "LanguageModel list"

text \<open>\<open>{ ...openaiCompatibleModels, ...conditionalStaticModels }\<close>\<close>

definition allModels :: "env \<Rightarrow> dynamic \<Rightarrow> registry" where
  "allModels e dyn = spread (spread [] (providers dyn)) (conditionalStaticModels e)"

text \<open>\<open>new Set([...openaiCompatibleUnsupportedModels, ...staticUnsupportedModels])\<close>\<close>

definition allUnsupportedModels :: "env \<Rightarrow> dynamic \<Rightarrow> LanguageModel list" where
  "allUnsupportedModels e dyn = remdups (unsupportedModels dyn @ staticUnsupportedModels e)"

definition isToolCallUnsupportedModel :: "env \<Rightarrow> dynamic \<Rightarrow> LanguageModel \<Rightarrow> bool" where
  "isToolCallUnsupportedModel e dyn model = (model \<in> set (allUnsupportedModels e dyn))"

subsection \<open>Values read through the prototype chain\<close>

text \<open>
  \<open>allModels\<close> and the mappings in it are plain objects: reading a property under a
  key that is not an own property continues in \<open>Object.prototype\<close>, whose members
  (\<open>constructor\<close>, \<open>toString\<close>, \<open>hasOwnProperty\<close>, ...) are not model handles.
  The module reads properties under keys it is given from outside in two places: the two
  halves of \<open>E2E_DEFAULT_MODEL\<close> and the \<open>ChatModel\<close> passed to \<open>getModel\<close>.
  A value read there is a handle, a string, some other built-in object or function (named
  by its path), or it is falsy; all falsy values stand for \<open>undefined\<close>, since the module
  only tests them.
\<close>

datatype jsval = Undefined | Model LanguageModel | Str string | Builtin string

fun truthy :: "jsval \<Rightarrow> bool" where
  "truthy Undefined = False"
| "truthy (Model h) = True"
| "truthy (Str s) = (s \<noteq> [])"
| "truthy (Builtin b) = True"

datatype error = NoModelsAvailable | TypeError

text \<open>
  What the JavaScript runtime supplies: \<open>protoMember k\<close> is the value of
  \<open>Object.prototype[k]\<close> read through a plain object, and \<open>protoMember2 k m\<close> the
  result of \<open>Object.prototype[k]?.[m]\<close>, which may be a \<open>TypeError\<close> thrown by an
  accessor.
\<close>

record runtime =
  protoMember :: "string \<Rightarrow> jsval"
  protoMember2 :: "string \<Rightarrow> string \<Rightarrow> error + jsval"

text \<open>\<open>allModels[provider]?.[model]\<close> for keys given from outside.\<close>

definition getMember2 :: "runtime \<Rightarrow> registry \<Rightarrow> string \<Rightarrow> string \<Rightarrow> error + jsval" where
  "getMember2 rt reg p m =
     (case map_of reg p of
        Some ms \<Rightarrow>
          (case map_of ms m of
             Some h \<Rightarrow> Inr (Model h)
           | None \<Rightarrow> Inr (protoMember rt m))
      | None \<Rightarrow> protoMember2 rt p m)"

subsection \<open>The fallback model\<close>

text \<open>\<open>(process.env.E2E_DEFAULT_MODEL || "").trim()\<close>\<close>

definition configuredDefault :: "env \<Rightarrow> string" where
  "configuredDefault e = trim (case E2E_DEFAULT_MODEL e of None \<Rightarrow> [] | Some s \<Rightarrow> s)"

text \<open>
  The first block of \<open>resolveFallback\<close>: the value of \<open>found\<close>, or \<open>undefined\<close>
  when the block is not entered. \<open>split("/", 2)\<close> keeps the first two pieces; a string
  that includes the separator has at least two, so the last case is never taken.
\<close>

definition explicitDefault :: "runtime \<Rightarrow> env \<Rightarrow> dynamic \<Rightarrow> error + jsval" where
  "explicitDefault rt e dyn =
     (let c = configuredDefault e in
      if CHR ''/'' \<in> set c then
        (case take 2 (split_str CHR ''/'' c) of
           [provider, model] \<Rightarrow> getMember2 rt (allModels e dyn) provider model
         | _ \<Rightarrow> Inr Undefined)
      else Inr Undefined)"

text \<open>
  The loop \<open>for (const provider of Object.keys(allModels))\<close>, on the keys still to visit:
  \<open>entries = Object.values(allModels[provider] || {})\<close>, and \<open>entries[0]\<close> is returned
  when \<open>entries.length > 0\<close>.
\<close>

fun firstAvailable :: "registry \<Rightarrow> string list \<Rightarrow> LanguageModel option" where
  "firstAvailable reg [] = None"
| "firstAvailable reg (provider # rest) =
     (case objectValues (case map_of reg provider of None \<Rightarrow> [] | Some ms \<Rightarrow> ms) of
        [] \<Rightarrow> firstAvailable reg rest
      | h # _ \<Rightarrow> Some h)"

text \<open>The last resort of \<open>resolveFallback\<close>, and the error it throws after it.\<close>

definition lastResort :: "env \<Rightarrow> error + jsval" where
  "lastResort e =
     (case map_of (conditionalStaticModels e) ''ollama'' of
        None \<Rightarrow> Inl NoModelsAvailable
      | Some ms \<Rightarrow>
          (case objectValues ms of
             [] \<Rightarrow> Inl NoModelsAvailable
           | h # _ \<Rightarrow> Inr (Model h)))"

definition resolveFallback :: "runtime \<Rightarrow> env \<Rightarrow> dynamic \<Rightarrow> error + jsval" where
  "resolveFallback rt e dyn =
     (case explicitDefault rt e dyn of
        Inl err \<Rightarrow> Inl err
      | Inr found \<Rightarrow>
          if truthy found then Inr found
          else
            (case ownModel (conditionalStaticModels e) ''openai'' ''gpt-4.1'' of
               Some h \<Rightarrow> Inr (Model h)
             | None \<Rightarrow>
                 (case firstAvailable (allModels e dyn) (objectKeys (allModels e dyn)) of
                    Some h \<Rightarrow> Inr (Model h)
                  | None \<Rightarrow> lastResort e)))"

text \<open>The same function with the last resort removed: after the loop it throws.\<close>

definition resolveFallbackWithoutLastResort :: "runtime \<Rightarrow> env \<Rightarrow> dynamic \<Rightarrow> error + jsval" where
  "resolveFallbackWithoutLastResort rt e dyn =
     (case explicitDefault rt e dyn of
        Inl err \<Rightarrow> Inl err
      | Inr found \<Rightarrow>
          if truthy found then Inr found
          else
            (case ownModel (conditionalStaticModels e) ''openai'' ''gpt-4.1'' of
               Some h \<Rightarrow> Inr (Model h)
             | None \<Rightarrow>
                 (case firstAvailable (allModels e dyn) (objectKeys (allModels e dyn)) of
                    Some h \<Rightarrow> Inr (Model h)
                  | None \<Rightarrow> Inl NoModelsAvailable)))"

subsection \<open>The exported provider\<close>

record ChatModel =
  provider :: string
  model :: string

record facade =
  modelsInfo :: "(string \<times> (string \<times> bool) list) list"
  getModel :: "ChatModel option \<Rightarrow> error + jsval"

text \<open>
  The body of \<open>getModel\<close>, with the two module constants it closes over:
  \<open>if (!model) return fallbackModel;
  return allModels[model.provider]?.[model.model] || fallbackModel;\<close>
\<close>

definition getModelOf :: "runtime \<Rightarrow> registry \<Rightarrow> jsval \<Rightarrow> ChatModel option \<Rightarrow> error + jsval" where
  "getModelOf rt reg fallbackModel ref =
     (case ref of
        None \<Rightarrow> Inr fallbackModel
      | Some r \<Rightarrow>
          (case getMember2 rt reg (provider r) (model r) of
             Inl err \<Rightarrow> Inl err
           | Inr v \<Rightarrow> Inr (if truthy v then v else fallbackModel)))"

text \<open>
  Loading the module: when \<open>resolveFallback()\<close> throws, the module fails to load and
  nothing is exported.
\<close>

definition customModelProvider :: "runtime \<Rightarrow> env \<Rightarrow> dynamic \<Rightarrow> error + facade" where
  "customModelProvider rt e dyn =
     (case resolveFallback rt e dyn of
        Inl err \<Rightarrow> Inl err
      | Inr fallbackModel \<Rightarrow>
          Inr \<lparr> modelsInfo =
                  map (\<lambda>(p, ms). (p, map (\<lambda>(n, h). (n, isToolCallUnsupportedModel e dyn h)) ms))
                    (allModels e dyn),
                getModel = getModelOf rt (allModels e dyn) fallbackModel \<rparr>)"

subsection \<open>The properties, in the words of the specification\<close>

text \<open>
  Presence of a signal: a string with at least one character that is not white space
  after trimming.
\<close>

definition isPresent :: "string option \<Rightarrow> bool" where
  "isPresent v = (case v of None \<Rightarrow> False | Some s \<Rightarrow> \<exists>c\<in>set (trim s). \<not> isWhiteSpace c)"

text \<open>The pairs (provider, model) that the module lists as rejecting tool calls.\<close>

definition knownUnsupported :: "(string \<times> string) list" where
  "knownUnsupported =
     [(''openai'', ''o4-mini''),
      (''ollama'', ''gemma3:1b''),
      (''ollama'', ''gemma3:4b''),
      (''ollama'', ''gemma3:12b''),
      (''openRouter'', ''gpt-oss-20b:free''),
      (''openRouter'', ''qwen3-8b:free''),
      (''openRouter'', ''qwen3-14b:free''),
      (''openRouter'', ''deepseek-r1:free''),
      (''openRouter'', ''gemini-2.0-flash-exp:free'')]"

text \<open>
  The first model of the first provider, in the order of the registry, that has at least
  one model.
\<close>

definition firstModelOfFirstProvider :: "registry \<Rightarrow> LanguageModel option" where
  "firstModelOfFirstProvider reg =
     (case find (\<lambda>(p, ms). ms \<noteq> []) reg of
        None \<Rightarrow> None
      | Some (p, ms) \<Rightarrow> Some (snd (hd ms)))"

text \<open>
  The explicit default in effect: the entry of the merged registry that the first two
  pieces of the trimmed \<open>E2E_DEFAULT_MODEL\<close> name, when it includes a slash and they
  name one.
\<close>

definition namedEntry :: "env \<Rightarrow> dynamic \<Rightarrow> LanguageModel option" where
  "namedEntry e dyn =
     (let c = configuredDefault e in
      if CHR ''/'' \<in> set c then
        (case take 2 (split_str CHR ''/'' c) of
           [p, m] \<Rightarrow> ownModel (allModels e dyn) p m
         | _ \<Rightarrow> None)
      else None)"

text \<open>
  The explicit default names no entry, and yet the first block of \<open>resolveFallback\<close>
  returns or throws: its lookup reached a member of the prototype chain.
\<close>

definition defaultReadsInherited :: "runtime \<Rightarrow> env \<Rightarrow> dynamic \<Rightarrow> bool" where
  "defaultReadsInherited rt e dyn =
     (namedEntry e dyn = None \<and>
      (case explicitDefault rt e dyn of Inl err \<Rightarrow> True | Inr v \<Rightarrow> truthy v))"

text \<open>A handle can be reached from a registry when some provider maps some name to it.\<close>

definition reachable :: "registry \<Rightarrow> LanguageModel \<Rightarrow> bool" where
  "reachable reg h = (\<exists>(p, ms)\<in>set reg. h \<in> snd ` set ms)"

subsection \<open>The parser of the dynamic payload\<close>

text \<open>
  \<open>openaiCompatibleModelsSafeParse\<close> is imported from
  \<open>./create-openai-compatiable\<close>, which is not among the sources. An entry of a
  payload that parsed as structured data is \<open>{ name, baseURL, apiKey?, models: [{ name,
  supportsTools? }, ...] }\<close>, any field of which may be missing.
\<close>

record entry =
  entryName :: "string option"
  entryBaseURL :: "string option"
  entryApiKey :: "string option"
  entryModels :: "(string \<times> bool option) list option"

record providerDefinition =
  name :: string
  baseURL :: string
  apiKey :: "string option"
  models :: "(string \<times> bool option) list"

datatype payload = NoPayload | Malformed | Entries "entry list"

text \<open>Modelled from the spec: the structural validity of one entry of the payload,
  section 4.3 (the check is part of \<open>openaiCompatibleModelsSafeParse\<close>, whose file is
  missing): no required field is missing and the model list is not empty.\<close>

definition structurallyValid :: "entry \<Rightarrow> bool" where
  "structurallyValid x =
     (entryName x \<noteq> None \<and> entryBaseURL x \<noteq> None \<and>
      (case entryModels x of None \<Rightarrow> False | Some ms \<Rightarrow> ms \<noteq> []))"

text \<open>Modelled from the spec: the provider definition that a structurally valid entry
  is parsed into, section 4.3 (part of \<open>openaiCompatibleModelsSafeParse\<close>, whose file
  is missing).\<close>

definition accepted :: "entry \<Rightarrow> providerDefinition" where
  "accepted x =
     \<lparr> name = the (entryName x), baseURL = the (entryBaseURL x),
       apiKey = entryApiKey x, models = the (entryModels x) \<rparr>"

text \<open>Modelled from the spec: the pass over the entries of a well-formed payload,
  section 4.3 (part of \<open>openaiCompatibleModelsSafeParse\<close>, whose file is missing). An
  entry that is structurally invalid, or whose provider name is that of an entry already
  taken, is excluded and the pass continues with the remaining entries.\<close>

fun parseEntries :: "string list \<Rightarrow> entry list \<Rightarrow> providerDefinition list" where
  "parseEntries seen [] = []"
| "parseEntries seen (x # xs) =
     (if structurallyValid x \<and> the (entryName x) \<notin> set seen
      then accepted x # parseEntries (the (entryName x) # seen) xs
      else parseEntries seen xs)"

text \<open>Modelled from the spec: \<open>openaiCompatibleModelsSafeParse\<close>, section 4.3 (the
  function is defined in \<open>./create-openai-compatiable\<close>, which is missing). A payload
  that is absent or does not parse as well-formed structured data yields the empty
  result.\<close>

definition openaiCompatibleModelsSafeParse :: "payload \<Rightarrow> providerDefinition list" where
  "openaiCompatibleModelsSafeParse p =
     (case p of
        NoPayload \<Rightarrow> []
      | Malformed \<Rightarrow> []
      | Entries xs \<Rightarrow> parseEntries [] xs)"

subsection \<open>Concrete inputs\<close>

text \<open>
  A fragment of the ECMAScript built-ins, for the examples: the keys of
  \<open>Object.prototype\<close>, and on its function-valued members the property \<open>name\<close>
  (\<open>Object.prototype.constructor\<close> is \<open>Object\<close>, whose \<open>name\<close> is the string
  \<open>"Object"\<close>). The fragment lists no other property of these members; the examples read
  none. Every general result below holds for an arbitrary runtime.
\<close>

definition objectPrototypeKeys :: "string list" where
  "objectPrototypeKeys =
     [''constructor'', ''__defineGetter__'', ''__defineSetter__'', ''hasOwnProperty'',
      ''__lookupGetter__'', ''__lookupSetter__'', ''isPrototypeOf'',
      ''propertyIsEnumerable'', ''toString'', ''valueOf'', ''__proto__'',
      ''toLocaleString'']"

definition ecmaFragment :: runtime where
  "ecmaFragment =
     \<lparr> protoMember =
         (\<lambda>k. if k \<in> set objectPrototypeKeys then Builtin (''Object.prototype.'' @ k)
              else Undefined),
       protoMember2 =
         (\<lambda>k m. if k \<in> set objectPrototypeKeys \<and> k \<noteq> ''__proto__'' \<and> m = ''name''
                then Inr (Str (if k = ''constructor'' then ''Object'' else k))
                else Inr Undefined) \<rparr>"

definition noEnv :: env where
  "noEnv =
     \<lparr> OPENAI_API_KEY = None, GOOGLE_GENERATIVE_AI_API_KEY = None,
       ANTHROPIC_API_KEY = None, XAI_API_KEY = None, OPENROUTER_API_KEY = None,
       OLLAMA_BASE_URL = None, E2E_DEFAULT_MODEL = None \<rparr>"

text \<open>Only the OpenAI key is set.\<close>

definition openaiOnly :: env where
  "openaiOnly = noEnv \<lparr> OPENAI_API_KEY := Some ''sk-test'' \<rparr>"

text \<open>The OpenAI key is set, the Google key is blank.\<close>

definition blankGoogle :: env where
  "blankGoogle = openaiOnly \<lparr> GOOGLE_GENERATIVE_AI_API_KEY := Some ''   '' \<rparr>"

text \<open>An explicit default, written with white space around it.\<close>

definition o3Default :: env where
  "o3Default = openaiOnly \<lparr> E2E_DEFAULT_MODEL := Some '' openai/o3 '' \<rparr>"

text \<open>No provider is present; the explicit default names members of the prototype chain.\<close>

definition inheritedDefault :: env where
  "inheritedDefault = noEnv \<lparr> E2E_DEFAULT_MODEL := Some ''constructor/name'' \<rparr>"

text \<open>The OpenAI key is set; the explicit default names no provider of the registry.\<close>

definition unknownDefault :: env where
  "unknownDefault = openaiOnly \<lparr> E2E_DEFAULT_MODEL := Some ''nonexistent/x'' \<rparr>"

text \<open>
  The OpenAI key is set; the model half of the explicit default is no model of \<open>openai\<close>
  but a member of \<open>Object.prototype\<close>.
\<close>

definition toStringDefault :: env where
  "toStringDefault = openaiOnly \<lparr> E2E_DEFAULT_MODEL := Some ''openai/toString'' \<rparr>"

text \<open>Only the Ollama base URL is set.\<close>

definition ollamaOnly :: env where
  "ollamaOnly = noEnv \<lparr> OLLAMA_BASE_URL := Some ''http://localhost:11434/api'' \<rparr>"

definition inheritedReference :: ChatModel where
  "inheritedReference = \<lparr> provider = ''constructor'', model = ''name'' \<rparr>"

definition noDynamic :: dynamic where
  "noDynamic = \<lparr> providers = [], unsupportedModels = [] \<rparr>"

text \<open>Two dynamic providers; the second is named \<open>openai\<close> and offers \<open>gpt-4.1\<close>.\<close>

definition acmeThenOpenai :: dynamic where
  "acmeThenOpenai =
     \<lparr> providers =
         [(''acme'', [(''acme-mini'', OpenAICompatible 0)]),
          (''openai'', [(''gpt-4.1'', OpenAICompatible 1)])],
       unsupportedModels = [OpenAICompatible 0] \<rparr>"

text \<open>A dynamic provider named \<open>openai\<close> with one model of its own, flagged.\<close>

definition shadowedOpenai :: dynamic where
  "shadowedOpenai =
     \<lparr> providers = [(''openai'', [(''custom'', OpenAICompatible 7)])],
       unsupportedModels = [OpenAICompatible 7] \<rparr>"

text \<open>Three valid entries and, third in the payload, one without its model list.\<close>

definition fourEntries :: "entry list" where
  "fourEntries =
     [\<lparr> entryName = Some ''a'', entryBaseURL = Some ''http://a'', entryApiKey = None,
        entryModels = Some [(''m1'', None)] \<rparr>,
      \<lparr> entryName = Some ''b'', entryBaseURL = Some ''http://b'', entryApiKey = Some ''k'',
        entryModels = Some [(''m2'', Some False)] \<rparr>,
      \<lparr> entryName = Some ''c'', entryBaseURL = Some ''http://c'', entryApiKey = None,
        entryModels = None \<rparr>,
      \<lparr> entryName = Some ''d'', entryBaseURL = Some ''http://d'', entryApiKey = None,
        entryModels = Some [(''m3'', None), (''m4'', Some True)] \<rparr>]"

section \<open>Lemmas\<close>

subsection \<open>Trimming and splitting\<close>

lemma exists_nonwhite_dropWhile:
  "(\<exists>c\<in>set (dropWhile P s). \<not> P c) = (\<exists>c\<in>set s. \<not> P c)"
  by (induction s) auto

lemma trim_nonempty_iff: "(trim s \<noteq> []) = (\<exists>c\<in>set s. \<not> isWhiteSpace c)"
proof -
  have "(trim s \<noteq> []) = (\<exists>c\<in>set (dropWhile isWhiteSpace s). \<not> isWhiteSpace c)"
    by (simp add: trim_def)
  then show ?thesis by (simp add: exists_nonwhite_dropWhile)
qed

lemma set_trim_nonwhite:
  "(\<exists>c\<in>set (trim s). \<not> isWhiteSpace c) = (\<exists>c\<in>set s. \<not> isWhiteSpace c)"
  by (simp add: trim_def exists_nonwhite_dropWhile)

lemma has_iff: "has v = (\<exists>s. v = Some s \<and> (\<exists>c\<in>set s. \<not> isWhiteSpace c))"
  by (cases v) (simp_all add: has_def trim_nonempty_iff)

lemma isPresent_has: "isPresent v = has v"
  by (cases v) (simp_all add: isPresent_def has_def set_trim_nonwhite trim_nonempty_iff)

lemma split_str_nonempty: "split_str sep s \<noteq> []"
  by (induction s) (auto split: list.splits)

lemma split_str_no_sep: "sep \<notin> set s \<Longrightarrow> split_str sep s = [s]"
  by (induction s) auto

lemma split_str_first:
  "sep \<notin> set p \<Longrightarrow> split_str sep (p @ sep # rest) = p # split_str sep rest"
  by (induction p) auto

subsection \<open>Assignment and spread\<close>

lemma map_of_setProp: "map_of (setProp k v obj) = (map_of obj)(k \<mapsto> v)"
  by (simp add: setProp_def update_conv')

lemma distinct_setProp: "distinct (map fst obj) \<Longrightarrow> distinct (map fst (setProp k v obj))"
  by (simp add: setProp_def distinct_update)

lemma set_setProp: "set (setProp k v obj) \<subseteq> insert (k, v) (set obj)"
  unfolding setProp_def by (induction obj) auto

lemma distinct_spread:
  "distinct (map fst target) \<Longrightarrow> distinct (map fst (spread target src))"
  by (induction target src rule: spread.induct) (auto simp: distinct_setProp)

lemma map_of_spread_notin:
  "k \<notin> fst ` set src \<Longrightarrow> map_of (spread target src) k = map_of target k"
  by (induction target src rule: spread.induct) (auto simp: map_of_setProp)

lemma map_of_spread_in:
  "distinct (map fst src) \<Longrightarrow> map_of src k = Some v \<Longrightarrow> map_of (spread target src) k = Some v"
proof (induction target src rule: spread.induct)
  case (1 target)
  then show ?case by simp
next
  case (2 target k' v' src)
  show ?case
  proof (cases "k = k'")
    case True
    with 2 have "k \<notin> fst ` set src" and "v = v'" by auto
    then show ?thesis using True by (simp add: map_of_spread_notin map_of_setProp)
  next
    case False
    with 2 show ?thesis by simp
  qed
qed

lemma keys_spread:
  "fst ` set (spread target src) = fst ` set target \<union> fst ` set src"
  by (induction target src rule: spread.induct) (auto simp: setProp_def dom_update)

lemma set_spread: "set (spread target src) \<subseteq> set target \<union> set src"
proof (induction target src rule: spread.induct)
  case (1 target)
  then show ?case by simp
next
  case (2 target k v src)
  then show ?case using set_setProp [of k v target] by auto
qed

subsection \<open>The static catalog\<close>

text \<open>The assignments only ever add a key: the static catalog is a list of six optional entries.\<close>

lemma conditionalStaticModels_append:
  "conditionalStaticModels e =
     (if HAS_OPENAI e then [(''openai'', openaiModels)] else []) @
     (if HAS_GOOGLE e then [(''google'', googleModels)] else []) @
     (if HAS_ANTHROPIC e then [(''anthropic'', anthropicModels)] else []) @
     (if HAS_XAI e then [(''xai'', xaiModels)] else []) @
     (if HAS_OLLAMA e then [(''ollama'', ollamaModels e)] else []) @
     (if HAS_OPENROUTER e then [(''openRouter'', openRouterModels)] else [])"
  by (simp add: conditionalStaticModels_def setProp_def)

lemma static_keys_distinct: "distinct (map fst (conditionalStaticModels e))"
  by (simp add: conditionalStaticModels_append)

lemma static_openai:
  "map_of (conditionalStaticModels e) ''openai'' = (if HAS_OPENAI e then Some openaiModels else None)"
  by (simp add: conditionalStaticModels_append)

lemma static_keys:
  "set (objectKeys (conditionalStaticModels e)) =
     (if HAS_OPENAI e then {''openai''} else {}) \<union>
     (if HAS_GOOGLE e then {''google''} else {}) \<union>
     (if HAS_ANTHROPIC e then {''anthropic''} else {}) \<union>
     (if HAS_XAI e then {''xai''} else {}) \<union>
     (if HAS_OLLAMA e then {''ollama''} else {}) \<union>
     (if HAS_OPENROUTER e then {''openRouter''} else {})"
  by (simp add: conditionalStaticModels_append objectKeys_def)

lemma static_no_empty_mapping: "(p, []) \<notin> set (conditionalStaticModels e)"
  by (simp add: conditionalStaticModels_append openaiModels_def googleModels_def
      anthropicModels_def xaiModels_def ollamaModels_def openRouterModels_def)

lemma static_key_Some:
  "p \<in> set (objectKeys (conditionalStaticModels e)) \<Longrightarrow>
   \<exists>ms. map_of (conditionalStaticModels e) p = Some ms"
  by (metis objectKeys_def domD dom_map_of_conv_image_fst list.set_map)

lemma ownModel_static_key:
  "ownModel (conditionalStaticModels e) p m = Some h \<Longrightarrow>
   p \<in> set (objectKeys (conditionalStaticModels e))"
  by (auto simp: ownModel_def objectKeys_def split: option.splits
      dest: map_of_SomeD intro: rev_image_eqI)

lemma set_staticUnsupportedModels:
  "set (staticUnsupportedModels e) =
     {h. \<exists>(p, m)\<in>set knownUnsupported. ownModel (conditionalStaticModels e) p m = Some h}"
  by (auto simp: staticUnsupportedModels_def knownUnsupported_def ifConstructed_def Let_def
      split: option.splits)

subsection \<open>The merged registry\<close>

lemma allModels_static:
  "map_of (conditionalStaticModels e) p = Some ms \<Longrightarrow> map_of (allModels e dyn) p = Some ms"
  by (simp add: allModels_def map_of_spread_in static_keys_distinct)

lemma allModels_static_key:
  assumes "p \<in> set (objectKeys (conditionalStaticModels e))"
  shows "map_of (allModels e dyn) p = map_of (conditionalStaticModels e) p"
proof -
  from assms obtain ms where "map_of (conditionalStaticModels e) p = Some ms"
    using static_key_Some by blast
  then show ?thesis by (simp add: allModels_static)
qed

lemma allModels_dynamic:
  "map_of (conditionalStaticModels e) p = None \<Longrightarrow>
   map_of (allModels e dyn) p = map_of (spread [] (providers dyn)) p"
  by (simp add: allModels_def map_of_spread_notin map_of_eq_None_iff)

lemma allModels_distinct: "distinct (map fst (allModels e dyn))"
  by (simp add: allModels_def distinct_spread)

lemma allModels_keys:
  "fst ` set (allModels e dyn) =
   fst ` set (providers dyn) \<union> fst ` set (conditionalStaticModels e)"
  by (simp add: allModels_def keys_spread)

lemma allModels_entries:
  "set (allModels e dyn) \<subseteq> set (providers dyn) \<union> set (conditionalStaticModels e)"
  unfolding allModels_def using set_spread [of "[]" "providers dyn"]
    set_spread [of "spread [] (providers dyn)" "conditionalStaticModels e"] by auto

lemma allModels_entry_static:
  assumes "p \<in> set (objectKeys (conditionalStaticModels e))"
    and "(p, ms) \<in> set (allModels e dyn)"
  shows "(p, ms) \<in> set (conditionalStaticModels e)"
proof -
  have "map_of (allModels e dyn) p = Some ms"
    using assms(2) allModels_distinct [of e dyn] by simp
  then have "map_of (conditionalStaticModels e) p = Some ms"
    using allModels_static_key [OF assms(1)] by simp
  then show ?thesis by (rule map_of_SomeD)
qed

subsection \<open>The fallback resolver\<close>

lemma firstAvailable_find:
  assumes "\<And>k v. (k, v) \<in> set xs \<Longrightarrow> map_of reg k = Some v"
  shows "firstAvailable reg (map fst xs) = firstModelOfFirstProvider xs"
  using assms
proof (induction xs)
  case Nil
  then show ?case by (simp add: firstModelOfFirstProvider_def)
next
  case (Cons x xs)
  obtain k v where x: "x = (k, v)" by (cases x)
  have kv: "map_of reg k = Some v" using Cons.prems x by simp
  have IH: "firstAvailable reg (map fst xs) = firstModelOfFirstProvider xs"
    using Cons by simp
  show ?case
  proof (cases v)
    case Nil
    then show ?thesis using x kv IH
      by (simp add: firstModelOfFirstProvider_def objectValues_def)
  next
    case (Cons a as)
    then show ?thesis using x kv
      by (simp add: firstModelOfFirstProvider_def objectValues_def)
  qed
qed

lemma firstAvailable_allModels:
  "firstAvailable (allModels e dyn) (objectKeys (allModels e dyn)) =
   firstModelOfFirstProvider (allModels e dyn)"
  unfolding objectKeys_def
  by (rule firstAvailable_find) (simp add: allModels_distinct)

lemma firstModelOfFirstProvider_None:
  "(firstModelOfFirstProvider reg = None) = (\<forall>(p, ms)\<in>set reg. ms = [])"
  by (induction reg) (auto simp: firstModelOfFirstProvider_def)

lemma lastResort_unreachable:
  assumes "firstAvailable (allModels e dyn) (objectKeys (allModels e dyn)) = None"
  shows "lastResort e = Inl NoModelsAvailable"
proof (cases "map_of (conditionalStaticModels e) ''ollama''")
  case None
  then show ?thesis by (simp add: lastResort_def)
next
  case (Some ms)
  then have "map_of (allModels e dyn) ''ollama'' = Some ms" by (rule allModels_static)
  then have "(''ollama'', ms) \<in> set (allModels e dyn)" by (rule map_of_SomeD)
  moreover have "\<forall>(p, ms)\<in>set (allModels e dyn). ms = []"
    using assms by (simp add: firstAvailable_allModels firstModelOfFirstProvider_None)
  ultimately have "ms = []" by auto
  then show ?thesis using Some by (simp add: lastResort_def objectValues_def)
qed

lemma configuredDefault_token:
  assumes "E2E_DEFAULT_MODEL e = Some v" and "trim v = p @ ''/'' @ m"
    and "CHR ''/'' \<notin> set p" and "CHR ''/'' \<notin> set m"
  shows "CHR ''/'' \<in> set (configuredDefault e)"
    and "take 2 (split_str CHR ''/'' (configuredDefault e)) = [p, m]"
proof -
  have c: "configuredDefault e = p @ CHR ''/'' # m"
    using assms(1,2) by (simp add: configuredDefault_def)
  show "CHR ''/'' \<in> set (configuredDefault e)" by (simp add: c)
  show "take 2 (split_str CHR ''/'' (configuredDefault e)) = [p, m]"
    using assms(3,4) by (simp add: c split_str_first split_str_no_sep)
qed

lemma getMember2_own:
  "ownModel reg p m = Some h \<Longrightarrow> getMember2 rt reg p m = Inr (Model h)"
  by (auto simp: ownModel_def getMember2_def split: option.splits)

lemma resolveFallback_no_default:
  assumes "explicitDefault rt e dyn = Inr found" and "\<not> truthy found"
  shows "resolveFallback rt e dyn =
         (case ownModel (conditionalStaticModels e) ''openai'' ''gpt-4.1'' of
            Some h \<Rightarrow> Inr (Model h)
          | None \<Rightarrow>
              (case firstModelOfFirstProvider (allModels e dyn) of
                 Some h \<Rightarrow> Inr (Model h)
               | None \<Rightarrow> Inl NoModelsAvailable))"
  using assms
  by (simp add: resolveFallback_def firstAvailable_allModels [symmetric] lastResort_unreachable
      split: option.splits)

text \<open>The entry that the explicit default names is what the first block returns.\<close>

lemma explicitDefault_namedEntry:
  "namedEntry e dyn = Some h \<Longrightarrow> explicitDefault rt e dyn = Inr (Model h)"
  by (auto simp: namedEntry_def explicitDefault_def Let_def getMember2_own
      split: if_splits list.splits)

lemma resolveFallback_namedEntry:
  "namedEntry e dyn = Some h \<Longrightarrow> resolveFallback rt e dyn = Inr (Model h)"
  by (simp add: resolveFallback_def explicitDefault_namedEntry)

lemma explicitDefault_nothing:
  assumes "namedEntry e dyn = None" and "\<not> defaultReadsInherited rt e dyn"
  shows "\<exists>found. explicitDefault rt e dyn = Inr found \<and> \<not> truthy found"
  using assms by (cases "explicitDefault rt e dyn") (simp_all add: defaultReadsInherited_def)

text \<open>
  When the first block finds nothing, the module fails to load exactly when no provider
  of the merged registry has a model.
\<close>

lemma resolveFallback_throws_iff:
  assumes "explicitDefault rt e dyn = Inr found" and "\<not> truthy found"
  shows "(resolveFallback rt e dyn = Inl NoModelsAvailable) =
         (\<forall>(p, ms)\<in>set (allModels e dyn). ms = [])"
proof (cases "HAS_OPENAI e")
  case True
  then have "map_of (allModels e dyn) ''openai'' = Some openaiModels"
    by (simp add: allModels_static static_openai)
  then have "(''openai'', openaiModels) \<in> set (allModels e dyn)" by (rule map_of_SomeD)
  then have "\<not> (\<forall>(p, ms)\<in>set (allModels e dyn). ms = [])"
    by (auto simp: openaiModels_def)
  then show ?thesis
    using True resolveFallback_no_default [OF assms]
    by (simp add: ownModel_def static_openai openaiModels_def)
next
  case False
  then show ?thesis
    using resolveFallback_no_default [OF assms]
    by (simp add: ownModel_def static_openai firstModelOfFirstProvider_None [symmetric]
        split: option.splits)
qed

text \<open>
  A reference whose lookup yields nothing truthy resolves to what no reference resolves
  to.
\<close>

lemma getModel_fallback:
  assumes "customModelProvider rt e dyn = Inr f"
    and "getMember2 rt (allModels e dyn) (provider r) (model r) = Inr v" and "\<not> truthy v"
  shows "getModel f (Some r) = getModel f None"
  using assms by (auto simp: customModelProvider_def getModelOf_def split: sum.splits)

text \<open>
  So an unknown reference resolves to the fallback whenever the key that is not an own
  property is not one under which the prototype chain holds a truthy value either.
\<close>

lemma getModel_unknown_reference:
  assumes "customModelProvider rt e dyn = Inr f"
    and "map_of (allModels e dyn) (provider r) = None \<and>
           protoMember2 rt (provider r) (model r) = Inr Undefined \<or>
         (\<exists>ms. map_of (allModels e dyn) (provider r) = Some ms \<and>
               map_of ms (model r) = None \<and> protoMember rt (model r) = Undefined)"
  shows "getModel f (Some r) = getModel f None"
proof -
  have "getMember2 rt (allModels e dyn) (provider r) (model r) = Inr Undefined"
    using assms(2) by (auto simp: getMember2_def)
  then show ?thesis using assms(1) getModel_fallback by fastforce
qed

subsection \<open>The parser of the dynamic payload\<close>

lemma parseEntries_distinct:
  assumes "distinct (map entryName (filter structurallyValid xs))"
    and "\<forall>x\<in>set xs. structurallyValid x \<longrightarrow> the (entryName x) \<notin> set seen"
  shows "parseEntries seen xs = map accepted (filter structurallyValid xs)"
  using assms
proof (induction xs arbitrary: seen)
  case Nil
  then show ?case by simp
next
  case (Cons x xs)
  show ?case
  proof (cases "structurallyValid x")
    case False
    then show ?thesis using Cons by simp
  next
    case True
    then obtain n where n: "entryName x = Some n" by (auto simp: structurallyValid_def)
    have fresh: "\<forall>y\<in>set xs. structurallyValid y \<longrightarrow> the (entryName y) \<notin> set (n # seen)"
    proof (intro ballI impI)
      fix y assume y: "y \<in> set xs" "structurallyValid y"
      then obtain k where k: "entryName y = Some k" by (auto simp: structurallyValid_def)
      have "entryName x \<notin> entryName ` {z \<in> set xs. structurallyValid z}"
        using Cons.prems(1) True by simp
      moreover have "entryName y \<in> entryName ` {z \<in> set xs. structurallyValid z}"
        using y by blast
      ultimately have "entryName y \<noteq> entryName x" by auto
      then show "the (entryName y) \<notin> set (n # seen)" using Cons.prems(2) y k n by auto
    qed
    have "parseEntries (n # seen) xs = map accepted (filter structurallyValid xs)"
      using Cons.IH [OF _ fresh] Cons.prems(1) True by simp
    then show ?thesis using True n Cons.prems(2) by simp
  qed
qed

lemma parseEntries_names:
  "set (map name (parseEntries seen xs)) \<inter> set seen = {} \<and>
   distinct (map name (parseEntries seen xs))"
proof (induction xs arbitrary: seen)
  case Nil
  then show ?case by simp
next
  case (Cons x xs)
  show ?case using Cons [of seen] Cons [of "the (entryName x) # seen"]
    by (auto simp: accepted_def)
qed

lemma parseEntries_subset:
  "set (parseEntries seen xs) \<subseteq> accepted ` {x \<in> set xs. structurallyValid x}"
  by (induction xs arbitrary: seen) auto

lemma parseEntries_covers:
  "x \<in> set xs \<Longrightarrow> structurallyValid x \<Longrightarrow>
   the (entryName x) \<in> set seen \<union> name ` set (parseEntries seen xs)"
proof (induction xs arbitrary: seen)
  case Nil
  then show ?case by simp
next
  case (Cons y ys)
  show ?case
  proof (cases "x = y")
    case True
    then show ?thesis using Cons.prems by (auto simp: accepted_def)
  next
    case False
    then have "x \<in> set ys" using Cons.prems by simp
    then show ?thesis
      using Cons.IH [of seen] Cons.IH [of "the (entryName y) # seen"] Cons.prems(2)
      by (auto simp: accepted_def)
  qed
qed

section \<open>The claims\<close>

text \<open>
  C1. The claim fails where the code misses a case: \<open>allModels[model.provider]\<close> also
  finds the members a plain object inherits. With only the OpenAI key set, the reference
  (\<open>constructor\<close>, \<open>name\<close>) names no provider of the registry, yet \<open>getModel\<close> returns
  the string \<open>"Object"\<close> (the \<open>name\<close> of \<open>Object.prototype.constructor\<close>) instead of the
  fallback model that it returns for no reference.
\<close>

theorem getModel_inherited_member:
  "(case customModelProvider ecmaFragment openaiOnly noDynamic of
      Inl err \<Rightarrow> False
    | Inr f \<Rightarrow>
        getModel f None = Inr (Model (OpenAI ''gpt-4.1'')) \<and>
        getModel f (Some inheritedReference) = Inr (Str ''Object'')) \<and>
   map_of (allModels openaiOnly noDynamic) (provider inheritedReference) = None"
  by code_simp

text \<open>
  C2. For a provider name defined in both the static and the dynamic catalog, the merged
  registry maps the name to the static catalog's mapping, whole: every entry the merged
  registry has under that name is the static one, so no model of the dynamic provider
  survives and nothing is mixed per model.
\<close>

theorem allModels_static_precedence:
  assumes "p \<in> set (objectKeys (conditionalStaticModels e))"
    and "p \<in> set (objectKeys (providers dyn))"
  shows "map_of (allModels e dyn) p = map_of (conditionalStaticModels e) p \<and>
         (\<forall>ms. (p, ms) \<in> set (allModels e dyn) \<longrightarrow> (p, ms) \<in> set (conditionalStaticModels e))"
  using assms(1) allModels_static_key allModels_entry_static by blast

theorem allModels_static_precedence_witness:
  "map_of (allModels openaiOnly shadowedOpenai) ''openai'' = Some openaiModels \<and>
   map_of (providers shadowedOpenai) ''openai'' = Some [(''custom'', OpenAICompatible 7)] \<and>
   ownModel (allModels openaiOnly shadowedOpenai) ''openai'' ''custom'' = None"
proof -
  have s: "''openai'' \<in> set (objectKeys (conditionalStaticModels openaiOnly))"
    by code_simp
  have d: "''openai'' \<in> set (objectKeys (providers shadowedOpenai))"
    by code_simp
  have m: "map_of (conditionalStaticModels openaiOnly) ''openai'' = Some openaiModels"
    by code_simp
  have c: "map_of openaiModels ''custom'' = None"
    by code_simp
  have "map_of (allModels openaiOnly shadowedOpenai) ''openai'' = Some openaiModels"
    using allModels_static_precedence [OF s d] m by simp
  then show ?thesis using c by (simp add: ownModel_def shadowedOpenai_def)
qed

text \<open>
  C3. The claim fails where the code misses a case: the lookup of the explicit default
  also finds the members a plain object inherits. With no provider present, no dynamic
  provider and \<open>E2E_DEFAULT_MODEL\<close> set to \<open>constructor/name\<close>, the static catalog and
  the merged registry are empty, yet \<open>resolveFallback\<close> does not throw: it returns the
  string \<open>"Object"\<close>.
\<close>

theorem resolveFallback_inherited_default:
  "conditionalStaticModels inheritedDefault = [] \<and>
   allModels inheritedDefault noDynamic = [] \<and>
   resolveFallback ecmaFragment inheritedDefault noDynamic = Inr (Str ''Object'')"
  by code_simp

text \<open>
  C4. When the explicit default is a single \<open>provider/model\<close> token (the value of
  \<open>E2E_DEFAULT_MODEL\<close>, trimmed, is the provider, one slash and the model, neither half
  containing a slash) and the two halves name an entry of the merged registry, the
  fallback resolver selects that entry's handle, and resolving no reference returns it,
  whatever the order of the registry.
\<close>

theorem resolveFallback_explicit_default:
  assumes "E2E_DEFAULT_MODEL e = Some v" and "trim v = p @ ''/'' @ m"
    and "CHR ''/'' \<notin> set p" and "CHR ''/'' \<notin> set m"
    and "ownModel (allModels e dyn) p m = Some h"
  shows "resolveFallback rt e dyn = Inr (Model h) \<and>
         (\<exists>f. customModelProvider rt e dyn = Inr f \<and> getModel f None = Inr (Model h))"
proof -
  have "explicitDefault rt e dyn = Inr (Model h)"
    using configuredDefault_token [OF assms(1-4)] getMember2_own [OF assms(5)]
    by (simp add: explicitDefault_def)
  then have r: "resolveFallback rt e dyn = Inr (Model h)"
    by (simp add: resolveFallback_def)
  then show ?thesis
    by (simp add: customModelProvider_def getModelOf_def)
qed

theorem resolveFallback_explicit_default_witness:
  "E2E_DEFAULT_MODEL o3Default = Some '' openai/o3 '' \<and>
   ownModel (allModels o3Default noDynamic) ''openai'' ''o3'' = Some (OpenAI ''o3'') \<and>
   resolveFallback ecmaFragment o3Default noDynamic = Inr (Model (OpenAI ''o3'')) \<and>
   (\<exists>f. customModelProvider ecmaFragment o3Default noDynamic = Inr f \<and>
        getModel f None = Inr (Model (OpenAI ''o3'')))"
proof -
  have v: "E2E_DEFAULT_MODEL o3Default = Some '' openai/o3 ''"
    by (simp add: o3Default_def)
  have t: "trim '' openai/o3 '' = ''openai'' @ ''/'' @ ''o3''"
    by code_simp
  have p: "CHR ''/'' \<notin> set ''openai''" and m: "CHR ''/'' \<notin> set ''o3''"
    by simp_all
  have h: "ownModel (allModels o3Default noDynamic) ''openai'' ''o3'' = Some (OpenAI ''o3'')"
    by code_simp
  show ?thesis
    using resolveFallback_explicit_default [OF v t p m h, of ecmaFragment] v h by simp
qed

text \<open>
  C5, as stated, fails: with no explicit default and no OpenAI key, a dynamic provider
  named \<open>openai\<close> puts a \<open>gpt-4.1\<close> into the merged registry, and the fallback is
  nevertheless the first model of the first provider. The module tests the static
  catalog, \<open>conditionalStaticModels.openai?.["gpt-4.1"]\<close>, not the merged registry.
\<close>

theorem resolveFallback_registry_openai_counterexample:
  "E2E_DEFAULT_MODEL noEnv = None \<and>
   ownModel (allModels noEnv acmeThenOpenai) ''openai'' ''gpt-4.1'' = Some (OpenAICompatible 1) \<and>
   resolveFallback ecmaFragment noEnv acmeThenOpenai = Inr (Model (OpenAICompatible 0))"
  by code_simp

text \<open>
  The claim also fails where the lookup of the explicit default reads an inherited
  member, the missed case of C1 and C3: with the OpenAI key set and the default
  \<open>openai/toString\<close>, which names no entry, the fallback is not \<open>gpt-4.1\<close> but the
  function \<open>Object.prototype.toString\<close>.
\<close>

lemma resolveFallback_inherited_model_half:
  "namedEntry toStringDefault noDynamic = None \<and>
   ownModel (allModels toStringDefault noDynamic) ''openai'' ''gpt-4.1'' = Some (OpenAI ''gpt-4.1'') \<and>
   resolveFallback ecmaFragment toStringDefault noDynamic =
     Inr (Builtin ''Object.prototype.toString'')"
  by code_simp

text \<open>
  C5, amended. When no explicit default is in effect (the trimmed \<open>E2E_DEFAULT_MODEL\<close>
  has no slash, or its first two pieces name no entry of the merged registry), the case
  that the lookup reads an inherited member being left out: if the static catalog has
  \<open>gpt-4.1\<close> under \<open>openai\<close>, which it has exactly when the OpenAI key is present, the
  fallback is that handle; otherwise it is the first model of the first provider, in the
  order of the merged registry, that has at least one model, and the module fails to load
  when there is none.
\<close>

theorem resolveFallback_without_explicit_default:
  assumes "namedEntry e dyn = None" and "\<not> defaultReadsInherited rt e dyn"
  shows "resolveFallback rt e dyn =
         (case ownModel (conditionalStaticModels e) ''openai'' ''gpt-4.1'' of
            Some h \<Rightarrow> Inr (Model h)
          | None \<Rightarrow>
              (case firstModelOfFirstProvider (allModels e dyn) of
                 Some h \<Rightarrow> Inr (Model h)
               | None \<Rightarrow> Inl NoModelsAvailable)) \<and>
         ownModel (conditionalStaticModels e) ''openai'' ''gpt-4.1'' =
           (if HAS_OPENAI e then Some (OpenAI ''gpt-4.1'') else None)"
proof -
  from assms obtain found where "explicitDefault rt e dyn = Inr found" and "\<not> truthy found"
    using explicitDefault_nothing by blast
  then show ?thesis
    using resolveFallback_no_default
    by (simp add: ownModel_def static_openai openaiModels_def)
qed

theorem resolveFallback_without_explicit_default_witness:
  "resolveFallback ecmaFragment unknownDefault acmeThenOpenai = Inr (Model (OpenAI ''gpt-4.1'')) \<and>
   firstModelOfFirstProvider (allModels unknownDefault acmeThenOpenai) =
     Some (OpenAICompatible 0) \<and>
   resolveFallback ecmaFragment noEnv acmeThenOpenai = Inr (Model (OpenAICompatible 0)) \<and>
   resolveFallback ecmaFragment noEnv noDynamic = Inl NoModelsAvailable"
proof -
  have n1: "namedEntry unknownDefault acmeThenOpenai = None"
    and n2: "namedEntry noEnv acmeThenOpenai = None"
    and n3: "namedEntry noEnv noDynamic = None"
    by code_simp+
  have i1: "\<not> defaultReadsInherited ecmaFragment unknownDefault acmeThenOpenai"
    and i2: "\<not> defaultReadsInherited ecmaFragment noEnv acmeThenOpenai"
    and i3: "\<not> defaultReadsInherited ecmaFragment noEnv noDynamic"
    by code_simp+
  have h1: "HAS_OPENAI unknownDefault" and h2: "\<not> HAS_OPENAI noEnv"
    by code_simp+
  have f1: "firstModelOfFirstProvider (allModels unknownDefault acmeThenOpenai) =
            Some (OpenAICompatible 0)"
    and f2: "firstModelOfFirstProvider (allModels noEnv acmeThenOpenai) =
             Some (OpenAICompatible 0)"
    and f3: "firstModelOfFirstProvider (allModels noEnv noDynamic) = None"
    by code_simp+
  show ?thesis
    using resolveFallback_without_explicit_default [OF n1 i1]
      resolveFallback_without_explicit_default [OF n2 i2]
      resolveFallback_without_explicit_default [OF n3 i3]
    by (simp add: h1 h2 f1 f2 f3)
qed

text \<open>
  C6. For each first-party provider, the static catalog has the provider's key exactly
  when its signal is present (a string with a character that is not white space after
  trimming); the catalog has no other key, and no key of it has an empty mapping.
\<close>

theorem static_catalog_presence_gating:
  "(''openai'' \<in> set (objectKeys (conditionalStaticModels e))) = isPresent (OPENAI_API_KEY e) \<and>
   (''google'' \<in> set (objectKeys (conditionalStaticModels e))) =
     isPresent (GOOGLE_GENERATIVE_AI_API_KEY e) \<and>
   (''anthropic'' \<in> set (objectKeys (conditionalStaticModels e))) = isPresent (ANTHROPIC_API_KEY e) \<and>
   (''xai'' \<in> set (objectKeys (conditionalStaticModels e))) = isPresent (XAI_API_KEY e) \<and>
   (''ollama'' \<in> set (objectKeys (conditionalStaticModels e))) = isPresent (OLLAMA_BASE_URL e) \<and>
   (''openRouter'' \<in> set (objectKeys (conditionalStaticModels e))) =
     isPresent (OPENROUTER_API_KEY e) \<and>
   set (objectKeys (conditionalStaticModels e)) \<subseteq>
     {''openai'', ''google'', ''anthropic'', ''xai'', ''ollama'', ''openRouter''} \<and>
   [] \<notin> snd ` set (conditionalStaticModels e)"
proof -
  have "[] \<notin> snd ` set (conditionalStaticModels e)"
    using static_no_empty_mapping [of _ e] by force
  then show ?thesis
    by (simp add: static_keys isPresent_has HAS_OPENAI_def HAS_GOOGLE_def HAS_ANTHROPIC_def
        HAS_XAI_def HAS_OLLAMA_def HAS_OPENROUTER_def)
qed

theorem static_catalog_presence_gating_witness:
  "isPresent (OPENAI_API_KEY blankGoogle) \<and>
   \<not> isPresent (GOOGLE_GENERATIVE_AI_API_KEY blankGoogle) \<and>
   ''openai'' \<in> set (objectKeys (conditionalStaticModels blankGoogle)) \<and>
   ''google'' \<notin> set (objectKeys (conditionalStaticModels blankGoogle)) \<and>
   map_of (conditionalStaticModels blankGoogle) ''google'' = None"
proof -
  have o: "isPresent (OPENAI_API_KEY blankGoogle)"
    by code_simp
  have g: "\<not> isPresent (GOOGLE_GENERATIVE_AI_API_KEY blankGoogle)"
    by code_simp
  have "''google'' \<notin> set (objectKeys (conditionalStaticModels blankGoogle))"
    using static_catalog_presence_gating [of blankGoogle] g by simp
  moreover from this have "map_of (conditionalStaticModels blankGoogle) ''google'' = None"
    by (simp add: objectKeys_def map_of_eq_None_iff)
  moreover have "''openai'' \<in> set (objectKeys (conditionalStaticModels blankGoogle))"
    using static_catalog_presence_gating [of blankGoogle] o by simp
  ultimately show ?thesis using o g by simp
qed

text \<open>
  C7. \<open>isToolCallUnsupportedModel(h)\<close> is true exactly when \<open>h\<close> is the handle that
  the static catalog holds for a pair of the fixed list whose provider it constructed, or
  \<open>h\<close> is among the handles the dynamic catalog flagged; a pair whose provider is absent
  contributes nothing.
\<close>

theorem isToolCallUnsupportedModel_iff:
  "isToolCallUnsupportedModel e dyn h =
     ((\<exists>(p, m)\<in>set knownUnsupported.
          p \<in> set (objectKeys (conditionalStaticModels e)) \<and>
          ownModel (conditionalStaticModels e) p m = Some h) \<or>
      h \<in> set (unsupportedModels dyn))"
proof -
  have "(\<exists>(p, m)\<in>set knownUnsupported. ownModel (conditionalStaticModels e) p m = Some h) =
        (\<exists>(p, m)\<in>set knownUnsupported.
            p \<in> set (objectKeys (conditionalStaticModels e)) \<and>
            ownModel (conditionalStaticModels e) p m = Some h)"
    using ownModel_static_key by blast
  then show ?thesis
    by (auto simp: isToolCallUnsupportedModel_def allUnsupportedModels_def
        set_staticUnsupportedModels)
qed

theorem isToolCallUnsupportedModel_iff_witness:
  "isToolCallUnsupportedModel openaiOnly acmeThenOpenai (OpenAI ''o4-mini'') \<and>
   isToolCallUnsupportedModel openaiOnly acmeThenOpenai (OpenAICompatible 0) \<and>
   \<not> isToolCallUnsupportedModel openaiOnly acmeThenOpenai (OpenAI ''gpt-4.1'') \<and>
   \<not> isToolCallUnsupportedModel openaiOnly acmeThenOpenai (OpenAICompatible 1) \<and>
   \<not> isToolCallUnsupportedModel openaiOnly acmeThenOpenai
       (Ollama ''http://localhost:11434/api'' ''gemma3:1b'')"
proof -
  have s: "conditionalStaticModels openaiOnly = [(''openai'', openaiModels)]"
    by code_simp
  have d: "unsupportedModels acmeThenOpenai = [OpenAICompatible 0]"
    by (simp add: acmeThenOpenai_def)
  show ?thesis
    by (simp add: isToolCallUnsupportedModel_iff [of openaiOnly acmeThenOpenai]
        d s objectKeys_def ownModel_def knownUnsupported_def openaiModels_def)
qed

text \<open>
  C8. A payload that is absent or fails to parse yields the empty catalog. Of a
  well-formed payload every entry that is structurally invalid is excluded and the
  provider names of the result are distinct; the provider name of every structurally valid
  entry is in the result; and when the valid entries have distinct names the result is
  exactly the valid entries, in their order (so three valid entries and one without its
  model list yield three providers).
\<close>

theorem safeParse_isolates_invalid_entries:
  "openaiCompatibleModelsSafeParse Malformed = [] \<and>
   openaiCompatibleModelsSafeParse NoPayload = [] \<and>
   set (openaiCompatibleModelsSafeParse (Entries xs)) \<subseteq>
     accepted ` {x \<in> set xs. structurallyValid x} \<and>
   distinct (map name (openaiCompatibleModelsSafeParse (Entries xs))) \<and>
   (\<forall>x\<in>set xs. structurallyValid x \<longrightarrow>
      the (entryName x) \<in> name ` set (openaiCompatibleModelsSafeParse (Entries xs))) \<and>
   (distinct (map entryName (filter structurallyValid xs)) \<longrightarrow>
      openaiCompatibleModelsSafeParse (Entries xs) = map accepted (filter structurallyValid xs))"
  using parseEntries_distinct [of xs "[]"] parseEntries_names [of "[]" xs]
    parseEntries_subset [of "[]" xs] parseEntries_covers [of _ xs "[]"]
  by (simp add: openaiCompatibleModelsSafeParse_def)

theorem safeParse_isolates_invalid_entries_witness:
  "length (filter structurallyValid fourEntries) = 3 \<and>
   length (filter (\<lambda>x. entryModels x = None) fourEntries) = 1 \<and>
   length (openaiCompatibleModelsSafeParse (Entries fourEntries)) = 3 \<and>
   map name (openaiCompatibleModelsSafeParse (Entries fourEntries)) = [''a'', ''b'', ''d'']"
proof -
  have f: "filter structurallyValid fourEntries =
           [fourEntries ! 0, fourEntries ! 1, fourEntries ! 3]"
    by code_simp
  have d: "distinct (map entryName (filter structurallyValid fourEntries))"
    by code_simp
  have n: "map (name \<circ> accepted) [fourEntries ! 0, fourEntries ! 1, fourEntries ! 3] =
           [''a'', ''b'', ''d'']"
    by code_simp
  have m: "length (filter (\<lambda>x. entryModels x = None) fourEntries) = 1"
    by code_simp
  have "openaiCompatibleModelsSafeParse (Entries fourEntries) =
        map accepted (filter structurallyValid fourEntries)"
    using safeParse_isolates_invalid_entries [of fourEntries] d by simp
  then show ?thesis using f n m by simp
qed

text \<open>
  C9. The last resort of \<open>resolveFallback\<close> is never reached: when the static catalog
  has an \<open>ollama\<close> mapping with at least one model, the merged registry has the same
  mapping under \<open>ollama\<close> and the loop over its providers returns a handle; so
  \<open>resolveFallback\<close> is equal to the same function without the last resort.
\<close>

theorem lastResort_removable:
  "(\<forall>ms. map_of (conditionalStaticModels e) ''ollama'' = Some ms \<and> ms \<noteq> [] \<longrightarrow>
      map_of (allModels e dyn) ''ollama'' = Some ms \<and>
      (\<exists>h. firstAvailable (allModels e dyn) (objectKeys (allModels e dyn)) = Some h)) \<and>
   resolveFallback rt e dyn = resolveFallbackWithoutLastResort rt e dyn"
proof -
  have "\<exists>h. firstAvailable (allModels e dyn) (objectKeys (allModels e dyn)) = Some h"
    if ms: "map_of (conditionalStaticModels e) ''ollama'' = Some ms" and ne: "ms \<noteq> []" for ms
  proof (rule ccontr)
    assume "\<not> ?thesis"
    then have "lastResort e = Inl NoModelsAvailable"
      using lastResort_unreachable by simp
    then show False using ms ne
      by (cases ms) (simp_all add: lastResort_def objectValues_def)
  qed
  moreover have "resolveFallback rt e dyn = resolveFallbackWithoutLastResort rt e dyn"
    by (simp add: resolveFallback_def resolveFallbackWithoutLastResort_def
        lastResort_unreachable split: sum.splits option.splits)
  ultimately show ?thesis using allModels_static by blast
qed

theorem lastResort_removable_witness:
  "map_of (conditionalStaticModels ollamaOnly) ''ollama'' = Some (ollamaModels ollamaOnly) \<and>
   map_of (allModels ollamaOnly noDynamic) ''ollama'' = Some (ollamaModels ollamaOnly) \<and>
   resolveFallback ecmaFragment ollamaOnly noDynamic =
     Inr (Model (Ollama ''http://localhost:11434/api'' ''gemma3:1b'')) \<and>
   resolveFallbackWithoutLastResort ecmaFragment ollamaOnly noDynamic =
     Inr (Model (Ollama ''http://localhost:11434/api'' ''gemma3:1b''))"
proof -
  have s: "map_of (conditionalStaticModels ollamaOnly) ''ollama'' = Some (ollamaModels ollamaOnly)"
    by code_simp
  have n: "ollamaModels ollamaOnly \<noteq> []"
    by (simp add: ollamaModels_def)
  have r: "resolveFallbackWithoutLastResort ecmaFragment ollamaOnly noDynamic =
           Inr (Model (Ollama ''http://localhost:11434/api'' ''gemma3:1b''))"
    by code_simp
  show ?thesis
    using lastResort_removable [where e = ollamaOnly and dyn = noDynamic and rt = ecmaFragment]
      s n r by simp
qed

text \<open>
  C10. A handle that the dynamic catalog flagged and that belongs to a dynamic provider
  whose name is also a key of the static catalog is a member of the merged unsupported
  set, although the merged registry maps that name to the static mapping; when the handle
  occurs under no other dynamic provider and is not a handle of the static catalog, it
  cannot be reached from the merged registry at all.
\<close>

theorem unsupported_not_reachable:
  assumes "h \<in> set (unsupportedModels dyn)"
    and "(p, ms) \<in> set (providers dyn)" and "h \<in> snd ` set ms"
    and "p \<in> set (objectKeys (conditionalStaticModels e))"
  shows "isToolCallUnsupportedModel e dyn h \<and>
         map_of (allModels e dyn) p = map_of (conditionalStaticModels e) p \<and>
         ((\<forall>(q, ms')\<in>set (providers dyn). q = p \<or> h \<notin> snd ` set ms') \<and>
          \<not> reachable (conditionalStaticModels e) h \<longrightarrow>
          \<not> reachable (allModels e dyn) h)"
proof -
  have a: "isToolCallUnsupportedModel e dyn h"
    using assms(1) by (simp add: isToolCallUnsupportedModel_def allUnsupportedModels_def)
  have b: "map_of (allModels e dyn) p = map_of (conditionalStaticModels e) p"
    using assms(4) by (rule allModels_static_key)
  have c: "\<not> reachable (allModels e dyn) h"
    if only: "\<forall>(q, ms')\<in>set (providers dyn). q = p \<or> h \<notin> snd ` set ms'"
      and st: "\<not> reachable (conditionalStaticModels e) h"
  proof
    assume "reachable (allModels e dyn) h"
    then obtain q ms' where q: "(q, ms') \<in> set (allModels e dyn)" and h: "h \<in> snd ` set ms'"
      by (auto simp: reachable_def)
    have "(q, ms') \<notin> set (conditionalStaticModels e)"
      using st h by (auto simp: reachable_def)
    moreover from this have "(q, ms') \<in> set (providers dyn)"
      using q allModels_entries [of e dyn] by auto
    then have "q = p" using only h by auto
    then have "(q, ms') \<in> set (conditionalStaticModels e)"
      using q assms(4) allModels_entry_static by blast
    ultimately show False by simp
  qed
  show ?thesis using a b c by blast
qed

theorem unsupported_not_reachable_witness:
  "OpenAICompatible 7 \<in> set (unsupportedModels shadowedOpenai) \<and>
   isToolCallUnsupportedModel openaiOnly shadowedOpenai (OpenAICompatible 7) \<and>
   map_of (allModels openaiOnly shadowedOpenai) ''openai'' = Some openaiModels \<and>
   \<not> reachable (allModels openaiOnly shadowedOpenai) (OpenAICompatible 7)"
proof -
  have u: "OpenAICompatible 7 \<in> set (unsupportedModels shadowedOpenai)"
    by (simp add: shadowedOpenai_def)
  have d: "(''openai'', [(''custom'', OpenAICompatible 7)]) \<in> set (providers shadowedOpenai)"
    by (simp add: shadowedOpenai_def)
  have m: "OpenAICompatible 7 \<in> snd ` set [(''custom'', OpenAICompatible 7)]"
    by simp
  have s: "''openai'' \<in> set (objectKeys (conditionalStaticModels openaiOnly))"
    by code_simp
  have c: "conditionalStaticModels openaiOnly = [(''openai'', openaiModels)]"
    by code_simp
  have o: "\<forall>(q, ms')\<in>set (providers shadowedOpenai).
             q = ''openai'' \<or> OpenAICompatible 7 \<notin> snd ` set ms'"
    by (simp add: shadowedOpenai_def)
  have r: "\<not> reachable (conditionalStaticModels openaiOnly) (OpenAICompatible 7)"
    by (simp add: c reachable_def openaiModels_def)
  show ?thesis
    using unsupported_not_reachable [OF u d m s] o r u by (simp add: c)
qed

end
